theory Spec2Isabelle
  imports Main "HOL-Library.Word"
begin

section \<open>Machine integers and errors\<close>

text \<open>
  Go's \<^verbatim>\<open>int\<close> on the 64-bit platforms the datastore is built for: a 64-bit two's
  complement value. \<open>+\<close> and \<open>-\<close> wrap around silently, the comparisons of the source
  are signed and are written here on \<open>sint\<close>.
\<close>

type_synonym go_int = "64 word"

text \<open>
  The errors of the datastore. The source builds them with \<^verbatim>\<open>errors.New\<close> and
  \<^verbatim>\<open>fmt.Errorf\<close>; each constructor stands for one message:
  \<^item> \<open>StartingValueNegative\<close>: "the starting value can not be negative";
  \<^item> \<open>StartLargerThanEnd\<close>: "the starting range value is larger than the ending range value";
  \<^item> \<open>StartOutOfScope\<close>: "the starting range value is out of scope";
  \<^item> \<open>NoRecordsReturned\<close>: "no records returned";
  \<^item> \<open>QueryExecutionError\<close>: "database execution error querying collection content";
  \<^item> \<open>ScanError\<close>: "database scan error";
  \<^item> \<open>CollectionQueryExecutionError\<close>: "database execution error querying collection";
  \<^item> \<open>CollectionScanError\<close>: "database scan error querying collection";
  \<^item> \<open>CollectionRowError\<close>: "database row error querying collection";
  \<^item> \<open>InsertCollectionError\<close>: "database execution error inserting collection";
  \<^item> \<open>InsertMediaTypeError\<close>: "database execution error inserting collection media type";
  \<^item> \<open>ExternalError\<close>: an error value handed back unchanged from a function outside
    this file (the SQL statement builders, \<^verbatim>\<open>GetObject\<close>);
  \<^item> \<open>RuntimePanic\<close>: not a returned error: the Go runtime panics (slice bounds or index
    out of range) and the call never returns.
\<close>

datatype error =
    StartingValueNegative
  | StartLargerThanEnd
  | StartOutOfScope
  | NoRecordsReturned
  | QueryExecutionError
  | ScanError
  | CollectionQueryExecutionError
  | CollectionScanError
  | CollectionRowError
  | InsertCollectionError
  | InsertMediaTypeError
  | ExternalError string
  | RuntimePanic

section \<open>processRangeValues\<close>

text \<open>
  The parameters \<^verbatim>\<open>first, last, max, size\<close> of the source; \<open>last\<close>, \<open>max\<close> and \<open>size\<close>
  are constants of HOL, so the variables carry a \<open>v\<close>. The three assignments to
  \<^verbatim>\<open>last\<close> are the three \<open>let\<close>-bound values.
\<close>

definition processRangeValues ::
  "go_int \<Rightarrow> go_int \<Rightarrow> go_int \<Rightarrow> go_int \<Rightarrow> error + (go_int \<times> go_int)" where
  "processRangeValues first lastv maxv sizev =
     (if sint first < 0 then Inl StartingValueNegative
      else if sint first > sint lastv then Inl StartLargerThanEnd
      else if sint first \<ge> sint sizev then Inl StartOutOfScope
      else
        let last1 = (if lastv = 0 \<and> first = 0 \<and> maxv \<noteq> 0 then first + maxv else lastv + 1);
            last2 = (if sint last1 > sint sizev then sizev else last1);
            last3 = (if maxv \<noteq> 0 \<and> sint (last2 - first) > sint maxv then first + maxv else last2)
        in Inr (first, last3))"

text \<open>
  The algorithm of the specification (section 4.1), word for word and on unbounded
  integers, for inputs that passed the three validity checks: the default window when
  both bounds are zero and \<open>max > 0\<close>, otherwise the inclusive end made exclusive; the
  clamp to \<open>size\<close>; the truncation to \<open>first + max\<close> when \<open>max > 0\<close> and the window is
  longer than \<open>max\<close>.
\<close>

definition resolve_spec :: "int \<Rightarrow> int \<Rightarrow> int \<Rightarrow> int \<Rightarrow> int \<times> int" where
  "resolve_spec first lastv maxv sizev =
     (let e0 = (if first = 0 \<and> lastv = 0 \<and> maxv > 0 then first + maxv else lastv + 1);
          e1 = (if e0 > sizev then sizev else e0);
          e2 = (if maxv > 0 \<and> e1 - first > maxv then first + maxv else e1)
      in (first, e2))"

section \<open>Slices of the Go runtime\<close>

text \<open>
  The slice expression \<^verbatim>\<open>s[low:high]\<close>. The runtime panics unless
  \<open>0 \<le> low \<le> high \<le> cap(s)\<close>: the upper bound is the capacity of the backing array,
  not the length. \<open>cap\<close> is the capacity the runtime gave the slice (never below its
  length); the elements of the backing array past the length were never written and
  hold the zero value \<open>zero\<close> of the element type.
\<close>

definition sliceExpr :: "'a \<Rightarrow> nat \<Rightarrow> 'a list \<Rightarrow> go_int \<Rightarrow> go_int \<Rightarrow> error + 'a list" where
  "sliceExpr zero cap xs low high =
     (if 0 \<le> sint low \<and> sint low \<le> sint high \<and> sint high \<le> int (max cap (length xs))
      then Inr (take (nat (sint high) - nat (sint low))
                  (drop (nat (sint low)) (xs @ replicate (cap - length xs) zero)))
      else Inl RuntimePanic)"

text \<open>The index expression \<^verbatim>\<open>s[i]\<close>: a panic unless \<open>0 \<le> i < len(s)\<close>.\<close>

definition indexExpr :: "'a list \<Rightarrow> int \<Rightarrow> error + 'a" where
  "indexExpr xs i = (if 0 \<le> i \<and> i < int (length xs) then Inr (xs ! nat i) else Inl RuntimePanic)"

section \<open>Data of the datastore\<close>

text \<open>
  Modelled from the spec: \<^verbatim>\<open>datastore.QueryType\<close> is declared outside the source
  files at hand. Section 3 gives it a collection ID, opaque filters, \<open>rangeBegin\<close>,
  \<open>rangeEnd\<close> and the server's \<open>rangeMax\<close>; the source reads the three range fields as
  \<^verbatim>\<open>int\<close>. The filters only reach the SQL builders, which are parameters below.
\<close>

record QueryType =
  CollectionID :: string
  RangeBegin :: go_int
  RangeEnd :: go_int
  RangeMax :: go_int

text \<open>
  Modelled from the spec: \<^verbatim>\<open>datastore.CollectionRawDataType\<close> and
  \<^verbatim>\<open>datastore.QueryReturnDataType\<close> are declared outside the source files at hand;
  the fields are the ones the source assigns (sections 3 and 6 of the specification).
\<close>

record CollectionRawDataType =
  STIXID :: string
  DateAdded :: string
  STIXVersion :: string
  SpecVersion :: string

record QueryReturnDataType =
  Size :: go_int
  DateAddedFirst :: string
  DateAddedLast :: string
  RangeBegin :: go_int
  RangeEnd :: go_int

text \<open>The zero values of Go's \<^verbatim>\<open>var\<close> declarations.\<close>

definition zeroCollectionRawData :: CollectionRawDataType where
  "zeroCollectionRawData =
     \<lparr>STIXID = [], CollectionRawDataType.DateAdded = [], STIXVersion = [], SpecVersion = []\<rparr>"

definition zeroQueryReturnData :: QueryReturnDataType where
  "zeroQueryReturnData =
     \<lparr>Size = 0, DateAddedFirst = [], DateAddedLast = [],
      QueryReturnDataType.RangeBegin = 0, QueryReturnDataType.RangeEnd = 0\<rparr>"

text \<open>
  Modelled from the spec: \<^verbatim>\<open>resources.ManifestType\<close>, \<^verbatim>\<open>InitManifest\<close> and
  \<^verbatim>\<open>CreateManifestEntry\<close> are outside the source files at hand. By section 6 a manifest
  entry is \<open>{id, dateAdded, version, specVersion}\<close>; a manifest starts without entries
  and \<^verbatim>\<open>CreateManifestEntry\<close> appends one entry.
\<close>

record ManifestEntryType =
  ID :: string
  DateAdded :: string
  Version :: string
  SpecVersion :: string

record ManifestType =
  Objects :: "ManifestEntryType list"

definition zeroManifestEntry :: ManifestEntryType where
  "zeroManifestEntry =
     \<lparr>ManifestEntryType.ID = [], ManifestEntryType.DateAdded = [], Version = [],
      ManifestEntryType.SpecVersion = []\<rparr>"

definition InitManifest :: ManifestType where
  "InitManifest = \<lparr>ManifestType.Objects = []\<rparr>"

definition CreateManifestEntry ::
  "ManifestType \<Rightarrow> string \<Rightarrow> string \<Rightarrow> string \<Rightarrow> string \<Rightarrow> ManifestType" where
  "CreateManifestEntry m stixid dateAdded modified specVersion =
     m\<lparr>ManifestType.Objects := ManifestType.Objects m @
        [\<lparr>ManifestEntryType.ID = stixid, ManifestEntryType.DateAdded = dateAdded,
          Version = modified, ManifestEntryType.SpecVersion = specVersion\<rparr>]\<rparr>"

text \<open>
  Modelled from the spec: \<^verbatim>\<open>objects.BundleType\<close>, \<^verbatim>\<open>InitBundle\<close> and \<^verbatim>\<open>AddObject\<close>
  are outside the source files at hand. By section 6 a bundle is an ordered collection
  of object payloads; it starts empty and \<^verbatim>\<open>AddObject\<close> appends. The payload type is
  left open.
\<close>

record 'obj BundleType =
  Objects :: "'obj list"

definition InitBundle :: "'obj BundleType" where
  "InitBundle = \<lparr>BundleType.Objects = []\<rparr>"

definition AddObject :: "'obj BundleType \<Rightarrow> 'obj \<Rightarrow> 'obj BundleType" where
  "AddObject b obj = b\<lparr>BundleType.Objects := BundleType.Objects b @ [obj]\<rparr>"

text \<open>
  One row of the query of \<^verbatim>\<open>GetObjectList\<close> and \<^verbatim>\<open>GetManifestData\<close>, as
  \<^verbatim>\<open>rows.Scan\<close> fills the four variables \<open>(dateAdded, stixid, modified, specVersion)\<close>;
  \<open>None\<close> is a row whose scan fails.
\<close>

type_synonym db_row = "string \<times> string \<times> string \<times> string"

text \<open>
  One row of the query of \<^verbatim>\<open>getCollections\<close>: the nine scanned variables.
\<close>

record CollectionRow =
  row_dateAdded :: string
  row_enabled :: go_int
  row_hidden :: go_int
  row_id :: string
  row_title :: string
  row_description :: string
  row_iCanRead :: go_int
  row_iCanWrite :: go_int
  row_mediaType :: string

text \<open>
  What the datastore reaches outside this file, gathered in one record and taken as a
  parameter by every method:
  \<^item> the SQL builders \<^verbatim>\<open>sqlGetObjectList\<close>, \<^verbatim>\<open>sqlGetManifestData\<close> (they may reject
    the query) and \<^verbatim>\<open>sqlGetAllCollections\<close> (its error is dropped by the source);
  \<^item> \<^verbatim>\<open>ds.DB.Query\<close> on those statements: \<open>None\<close> when the engine reports an error,
    otherwise the rows in the order the engine delivers them; for the collections
    query also whether \<^verbatim>\<open>rows.Err()\<close> is set after the last row;
  \<^item> \<^verbatim>\<open>ds.GetObject\<close>, the fetch of one payload by STIX ID and version;
  \<^item> \<open>appendCap n\<close>, the capacity the runtime has given a slice after \<open>n\<close> appends
    (used as \<open>max (appendCap n) n\<close>: a capacity is never below the length).
\<close>

record 'obj Sqlite3DatastoreType =
  sqlGetObjectList :: "QueryType \<Rightarrow> error + string"
  sqlGetManifestData :: "QueryType \<Rightarrow> error + string"
  sqlGetAllCollections :: "string \<Rightarrow> string"
  DBQuery :: "string \<Rightarrow> db_row option list option"
  DBQueryCollections :: "string \<Rightarrow> (CollectionRow option list \<times> bool) option"
  GetObject :: "string \<Rightarrow> string \<Rightarrow> error + 'obj"
  appendCap :: "nat \<Rightarrow> nat"

section \<open>GetObjectList, GetManifestData and GetBundle\<close>

text \<open>
  The \<^verbatim>\<open>rows.Next()\<close> loop of \<^verbatim>\<open>GetObjectList\<close>: a failed scan returns the scan error
  at once, a good row is appended to \<^verbatim>\<open>collectionRawData\<close>.
\<close>

fun scanObjectRows ::
  "db_row option list \<Rightarrow> CollectionRawDataType list \<Rightarrow> error + CollectionRawDataType list" where
  "scanObjectRows [] collectionRawData = Inr collectionRawData"
| "scanObjectRows (None # rows) collectionRawData = Inl ScanError"
| "scanObjectRows (Some (dateAdded, stixid, modified, specVersion) # rows) collectionRawData =
     scanObjectRows rows (collectionRawData @
       [\<lparr>STIXID = stixid, CollectionRawDataType.DateAdded = dateAdded,
         STIXVersion = modified, CollectionRawDataType.SpecVersion = specVersion\<rparr>])"

definition GetObjectList ::
  "'obj Sqlite3DatastoreType \<Rightarrow> QueryType
     \<Rightarrow> error + (CollectionRawDataType list \<times> QueryReturnDataType)" where
  "GetObjectList ds query =
     (case sqlGetObjectList ds query of
        Inl err \<Rightarrow> Inl err
      | Inr sqlStmt \<Rightarrow>
     (case DBQuery ds sqlStmt of
        None \<Rightarrow> Inl QueryExecutionError
      | Some rows \<Rightarrow>
     (case scanObjectRows rows [] of
        Inl err \<Rightarrow> Inl err
      | Inr collectionRawData \<Rightarrow>
     (let metaData = zeroQueryReturnData\<lparr>Size := of_nat (length collectionRawData)\<rparr> in
      if Size metaData = 0 then Inl NoRecordsReturned
      else
     (case processRangeValues (QueryType.RangeBegin query) (QueryType.RangeEnd query)
             (RangeMax query) (Size metaData) of
        Inl errRange \<Rightarrow> Inl errRange
      | Inr (first, lastv) \<Rightarrow>
     (case sliceExpr zeroCollectionRawData (appendCap ds (length collectionRawData))
             collectionRawData first lastv of
        Inl err \<Rightarrow> Inl err
      | Inr rangeCollectionRawData \<Rightarrow>
     (case indexExpr rangeCollectionRawData 0 of
        Inl err \<Rightarrow> Inl err
      | Inr firstEntry \<Rightarrow>
     (case indexExpr rangeCollectionRawData (int (length rangeCollectionRawData) - 1) of
        Inl err \<Rightarrow> Inl err
      | Inr lastEntry \<Rightarrow>
          Inr (rangeCollectionRawData,
               metaData\<lparr>DateAddedFirst := CollectionRawDataType.DateAdded firstEntry,
                        DateAddedLast := CollectionRawDataType.DateAdded lastEntry,
                        QueryReturnDataType.RangeBegin := first,
                        QueryReturnDataType.RangeEnd := lastv - 1\<rparr>)))))))))"

text \<open>The \<^verbatim>\<open>rows.Next()\<close> loop of \<^verbatim>\<open>GetManifestData\<close>.\<close>

fun scanManifestRows :: "db_row option list \<Rightarrow> ManifestType \<Rightarrow> error + ManifestType" where
  "scanManifestRows [] manifest = Inr manifest"
| "scanManifestRows (None # rows) manifest = Inl ScanError"
| "scanManifestRows (Some (dateAdded, stixid, modified, specVersion) # rows) manifest =
     scanManifestRows rows (CreateManifestEntry manifest stixid dateAdded modified specVersion)"

text \<open>
  \<^verbatim>\<open>GetManifestData\<close> as the source has it: no test for an empty result before
  \<^verbatim>\<open>processRangeValues\<close>, and of the metadata only \<^verbatim>\<open>Size\<close>, \<^verbatim>\<open>DateAddedFirst\<close> and
  \<^verbatim>\<open>DateAddedLast\<close> are assigned; \<^verbatim>\<open>RangeBegin\<close> and \<^verbatim>\<open>RangeEnd\<close> keep the zero value
  of the \<^verbatim>\<open>var metaData\<close> declaration.
\<close>

definition GetManifestData ::
  "'obj Sqlite3DatastoreType \<Rightarrow> QueryType \<Rightarrow> error + (ManifestType \<times> QueryReturnDataType)" where
  "GetManifestData ds query =
     (case sqlGetManifestData ds query of
        Inl err \<Rightarrow> Inl err
      | Inr sqlStmt \<Rightarrow>
     (case DBQuery ds sqlStmt of
        None \<Rightarrow> Inl QueryExecutionError
      | Some rows \<Rightarrow>
     (case scanManifestRows rows InitManifest of
        Inl err \<Rightarrow> Inl err
      | Inr manifest \<Rightarrow>
     (let metaData = zeroQueryReturnData\<lparr>Size := of_nat (length (ManifestType.Objects manifest))\<rparr> in
      case processRangeValues (QueryType.RangeBegin query) (QueryType.RangeEnd query)
             (RangeMax query) (Size metaData) of
        Inl errRange \<Rightarrow> Inl errRange
      | Inr (first, lastv) \<Rightarrow>
     (case sliceExpr zeroManifestEntry (appendCap ds (length (ManifestType.Objects manifest)))
             (ManifestType.Objects manifest) first lastv of
        Inl err \<Rightarrow> Inl err
      | Inr objs \<Rightarrow>
     (let rangeManifest = InitManifest\<lparr>ManifestType.Objects := objs\<rparr> in
      case indexExpr (ManifestType.Objects rangeManifest) 0 of
        Inl err \<Rightarrow> Inl err
      | Inr firstEntry \<Rightarrow>
     (case indexExpr (ManifestType.Objects rangeManifest)
             (int (length (ManifestType.Objects rangeManifest)) - 1) of
        Inl err \<Rightarrow> Inl err
      | Inr lastEntry \<Rightarrow>
          Inr (rangeManifest,
               metaData\<lparr>DateAddedFirst := ManifestEntryType.DateAdded firstEntry,
                        DateAddedLast := ManifestEntryType.DateAdded lastEntry\<rparr>))))))))"

text \<open>
  The loop of \<^verbatim>\<open>GetBundle\<close> over the entries: fetch by \<^verbatim>\<open>(STIXID, STIXVersion)\<close>,
  return the first error, otherwise add the object and go on.
\<close>

fun bundleLoop ::
  "'obj Sqlite3DatastoreType \<Rightarrow> CollectionRawDataType list \<Rightarrow> 'obj BundleType
     \<Rightarrow> error + 'obj BundleType" where
  "bundleLoop ds [] stixBundle = Inr stixBundle"
| "bundleLoop ds (v # vs) stixBundle =
     (case GetObject ds (STIXID v) (STIXVersion v) of
        Inl err \<Rightarrow> Inl err
      | Inr obj \<Rightarrow> bundleLoop ds vs (AddObject stixBundle obj))"

definition GetBundle ::
  "'obj Sqlite3DatastoreType \<Rightarrow> QueryType \<Rightarrow> error + ('obj BundleType \<times> QueryReturnDataType)" where
  "GetBundle ds query =
     (case GetObjectList ds query of
        Inl err \<Rightarrow> Inl err
      | Inr (rangeCollectionRawData, metaData) \<Rightarrow>
     (case bundleLoop ds rangeCollectionRawData InitBundle of
        Inl err \<Rightarrow> Inl err
      | Inr stixBundle \<Rightarrow> Inr (stixBundle, metaData)))"

section \<open>Collections\<close>

text \<open>
  Modelled from the spec: \<^verbatim>\<open>resources.CollectionType\<close>, \<^verbatim>\<open>resources.CollectionsType\<close>
  and their methods are outside the source files at hand. By section 6 a collection is
  \<open>{id, title, description, enabled, hidden, canRead, canWrite, mediaTypes, dateAdded}\<close>;
  the setters store the value their name says, \<^verbatim>\<open>AddMediaType\<close> appends to the media
  types (the specification's example keeps \<open>a, b, a\<close> as three entries, in order), and
  \<^verbatim>\<open>GetNewCollection\<close> adds a collection with zero values to the list and hands it out
  to be filled. A \<^verbatim>\<open>nil\<close> slice of media types and an empty one are both \<open>[]\<close>: the source
  ranges over neither.
\<close>

record CollectionType =
  DateAdded :: string
  Enabled :: bool
  Hidden :: bool
  ID :: string
  Title :: string
  Description :: string
  CanRead :: bool
  CanWrite :: bool
  MediaTypes :: "string list"

record CollectionsType =
  Collections :: "CollectionType list"

definition zeroCollection :: CollectionType where
  "zeroCollection =
     \<lparr>CollectionType.DateAdded = [], Enabled = False, Hidden = False, CollectionType.ID = [],
      Title = [], Description = [], CanRead = False, CanWrite = False, MediaTypes = []\<rparr>"

definition InitCollections :: CollectionsType where
  "InitCollections = \<lparr>Collections = []\<rparr>"

definition SetEnabled :: "CollectionType \<Rightarrow> CollectionType" where
  "SetEnabled c = c\<lparr>Enabled := True\<rparr>"

definition SetDisabled :: "CollectionType \<Rightarrow> CollectionType" where
  "SetDisabled c = c\<lparr>Enabled := False\<rparr>"

definition SetHidden :: "CollectionType \<Rightarrow> CollectionType" where
  "SetHidden c = c\<lparr>Hidden := True\<rparr>"

definition SetVisible :: "CollectionType \<Rightarrow> CollectionType" where
  "SetVisible c = c\<lparr>Hidden := False\<rparr>"

definition SetID :: "CollectionType \<Rightarrow> string \<Rightarrow> CollectionType" where
  "SetID c s = c\<lparr>CollectionType.ID := s\<rparr>"

definition SetTitle :: "CollectionType \<Rightarrow> string \<Rightarrow> CollectionType" where
  "SetTitle c s = c\<lparr>Title := s\<rparr>"

definition SetDescription :: "CollectionType \<Rightarrow> string \<Rightarrow> CollectionType" where
  "SetDescription c s = c\<lparr>Description := s\<rparr>"

definition SetCanRead :: "CollectionType \<Rightarrow> CollectionType" where
  "SetCanRead c = c\<lparr>CanRead := True\<rparr>"

definition SetCanWrite :: "CollectionType \<Rightarrow> CollectionType" where
  "SetCanWrite c = c\<lparr>CanWrite := True\<rparr>"

definition AddMediaType :: "CollectionType \<Rightarrow> string \<Rightarrow> CollectionType" where
  "AddMediaType c s = c\<lparr>MediaTypes := MediaTypes c @ [s]\<rparr>"

text \<open>
  Go's \<^verbatim>\<open>strings.Split(s, sep)\<close> for a separator of one byte: the pieces between the
  separators, empty pieces included; the empty string gives one empty piece.
\<close>

fun splitFrom :: "string \<Rightarrow> char \<Rightarrow> string \<Rightarrow> string list" where
  "splitFrom [] sep piece = [piece]"
| "splitFrom (c # cs) sep piece =
     (if c = sep then piece # splitFrom cs sep [] else splitFrom cs sep (piece @ [c]))"

definition Split :: "string \<Rightarrow> char \<Rightarrow> string list" where
  "Split s sep = splitFrom s sep []"

text \<open>
  The loop \<^verbatim>\<open>for i, mt := range mediatypes\<close> of \<^verbatim>\<open>getCollections\<close>: the entry at \<open>i\<close>
  is passed over when \<open>i > 0\<close> and it equals the entry at \<open>i - 1\<close> of the split list,
  and added otherwise.
\<close>

definition addMediaTypes :: "string list \<Rightarrow> CollectionType \<Rightarrow> CollectionType" where
  "addMediaTypes mediatypes c =
     fold (\<lambda>i c. if i > 0 \<and> mediatypes ! i = mediatypes ! (i - 1) then c
                  else AddMediaType c (mediatypes ! i))
          [0 ..< length mediatypes] c"

text \<open>The body of the \<^verbatim>\<open>rows.Next()\<close> loop of \<^verbatim>\<open>getCollections\<close> after a good scan.\<close>

definition collectionOfRow :: "CollectionRow \<Rightarrow> CollectionType" where
  "collectionOfRow r =
     (let c = zeroCollection\<lparr>CollectionType.DateAdded := row_dateAdded r\<rparr>;
          c = (if row_enabled r = 1 then SetEnabled c else SetDisabled c);
          c = (if row_hidden r = 1 then SetHidden c else SetVisible c);
          c = SetID c (row_id r);
          c = SetTitle c (row_title r);
          c = SetDescription c (row_description r);
          c = (if row_iCanRead r = 1 then SetCanRead c else c);
          c = (if row_iCanWrite r = 1 then SetCanWrite c else c)
      in addMediaTypes (Split (row_mediaType r) CHR '','') c)"

fun collectionsLoop :: "CollectionRow option list \<Rightarrow> CollectionsType \<Rightarrow> error + CollectionsType" where
  "collectionsLoop [] allCollections = Inr allCollections"
| "collectionsLoop (None # rows) allCollections = Inl CollectionScanError"
| "collectionsLoop (Some r # rows) allCollections =
     collectionsLoop rows
       (allCollections\<lparr>Collections := Collections allCollections @ [collectionOfRow r]\<rparr>)"

definition getCollections :: "'obj Sqlite3DatastoreType \<Rightarrow> string \<Rightarrow> error + CollectionsType" where
  "getCollections ds whichCollections =
     (case DBQueryCollections ds (sqlGetAllCollections ds whichCollections) of
        None \<Rightarrow> Inl CollectionQueryExecutionError
      | Some (rows, rowsErr) \<Rightarrow>
     (case collectionsLoop rows InitCollections of
        Inl err \<Rightarrow> Inl err
      | Inr allCollections \<Rightarrow>
          if rowsErr then Inl CollectionRowError else Inr allCollections))"

definition GetAllCollections :: "'obj Sqlite3DatastoreType \<Rightarrow> error + CollectionsType" where
  "GetAllCollections ds = getCollections ds ''all''"

definition GetAllEnabledCollections :: "'obj Sqlite3DatastoreType \<Rightarrow> error + CollectionsType" where
  "GetAllEnabledCollections ds = getCollections ds ''allEnabled''"

definition GetCollections :: "'obj Sqlite3DatastoreType \<Rightarrow> error + CollectionsType" where
  "GetCollections ds = getCollections ds ''enabledVisible''"

section \<open>addCollection\<close>

text \<open>
  Modelled from the spec: the storage engine behind \<^verbatim>\<open>ds.DB.Exec\<close> is an external
  collaborator (sections 1 and 6). The two tables \<^verbatim>\<open>addCollection\<close> writes are the
  state; an \<^verbatim>\<open>Exec\<close> of an insert statement either fails and leaves the tables as they
  are, or appends its row. Whether it fails is the engine's decision, the parameter
  \<open>execFails\<close>, which may depend on the tables and on the statement. The source opens
  no transaction and issues no other statement.
\<close>

datatype exec_call =
    ExecAddCollection string string string string bool bool
  | ExecAddCollectionMediaType string go_int

record Store =
  t_collections :: "(string \<times> string \<times> string \<times> string \<times> bool \<times> bool) list"
  t_collection_media :: "(string \<times> go_int) list"

type_synonym engine = "Store \<Rightarrow> exec_call \<Rightarrow> bool"

fun applyExec :: "Store \<Rightarrow> exec_call \<Rightarrow> Store" where
  "applyExec db (ExecAddCollection dateAdded cid title description canRead canWrite) =
     db\<lparr>t_collections := t_collections db @
          [(dateAdded, cid, title, description, canRead, canWrite)]\<rparr>"
| "applyExec db (ExecAddCollectionMediaType cid mediavalue) =
     db\<lparr>t_collection_media := t_collection_media db @ [(cid, mediavalue)]\<rparr>"

text \<open>\<open>DBExec\<close> returns whether the call failed, and the tables after it.\<close>

definition DBExec :: "engine \<Rightarrow> Store \<Rightarrow> exec_call \<Rightarrow> bool \<times> Store" where
  "DBExec execFails db call =
     (if execFails db call then (True, db) else (False, applyExec db call))"

definition mediavalueOf :: "string \<Rightarrow> go_int" where
  "mediavalueOf media = (if media = ''application/vnd.oasis.stix+json'' then 1 else 0)"

text \<open>
  The loop over \<^verbatim>\<open>obj.MediaTypes\<close>: the first failing insert returns the media type
  error, with the tables as they are at that moment.
\<close>

fun addCollectionMediaTypes ::
  "engine \<Rightarrow> string \<Rightarrow> string list \<Rightarrow> Store \<Rightarrow> error option \<times> Store" where
  "addCollectionMediaTypes execFails cid [] db = (None, db)"
| "addCollectionMediaTypes execFails cid (media # medias) db =
     (case DBExec execFails db (ExecAddCollectionMediaType cid (mediavalueOf media)) of
        (True, db') \<Rightarrow> (Some InsertMediaTypeError, db')
      | (False, db') \<Rightarrow> addCollectionMediaTypes execFails cid medias db')"

text \<open>
  \<^verbatim>\<open>addCollection\<close>; \<open>dateAdded\<close> is the formatted \<^verbatim>\<open>time.Now()\<close>. The result is the
  returned error (\<open>None\<close> for \<^verbatim>\<open>nil\<close>) and the tables the call leaves behind.
\<close>

definition addCollection ::
  "engine \<Rightarrow> string \<Rightarrow> CollectionType \<Rightarrow> Store \<Rightarrow> error option \<times> Store" where
  "addCollection execFails dateAdded obj db =
     (case DBExec execFails db
             (ExecAddCollection dateAdded (CollectionType.ID obj) (Title obj) (Description obj)
                (CanRead obj) (CanWrite obj)) of
        (True, db1) \<Rightarrow> (Some InsertCollectionError, db1)
      | (False, db1) \<Rightarrow> addCollectionMediaTypes execFails (CollectionType.ID obj) (MediaTypes obj) db1)"

section \<open>A small datastore to run the methods on\<close>

text \<open>
  Ten linkage rows with strictly increasing added timestamps, a datastore whose object
  query delivers the given rows and whose fetch returns \<open>id@version\<close> as the payload, and
  a query with the given range parameters.
\<close>

definition exampleRow :: "string \<Rightarrow> db_row" where
  "exampleRow k = (''2018-01-01T00:00:'' @ k, ''indicator--'' @ k, ''2018-02-'' @ k, ''2.0'')"

definition tenRows :: "db_row list" where
  "tenRows = map exampleRow
     [''01'', ''02'', ''03'', ''04'', ''05'', ''06'', ''07'', ''08'', ''09'', ''10'']"

definition exampleDatastore :: "db_row list \<Rightarrow> string Sqlite3DatastoreType" where
  "exampleDatastore rows =
     \<lparr>sqlGetObjectList = (\<lambda>query. Inr (''objects of '' @ CollectionID query)),
      sqlGetManifestData = (\<lambda>query. Inr (''manifest of '' @ CollectionID query)),
      sqlGetAllCollections = (\<lambda>whichCollections. whichCollections),
      DBQuery = (\<lambda>sqlStmt. Some (map Some rows)),
      DBQueryCollections = (\<lambda>sqlStmt. Some ([], False)),
      GetObject = (\<lambda>stixid version. Inr (stixid @ ''@'' @ version)),
      appendCap = (\<lambda>n. n)\<rparr>"

definition exampleQuery :: "go_int \<Rightarrow> go_int \<Rightarrow> go_int \<Rightarrow> QueryType" where
  "exampleQuery rangeBegin rangeEnd rangeMax =
     \<lparr>CollectionID = ''c1'', QueryType.RangeBegin = rangeBegin,
      QueryType.RangeEnd = rangeEnd, RangeMax = rangeMax\<rparr>"

text \<open>The entry \<^verbatim>\<open>GetObjectList\<close> builds from one scanned row.\<close>

definition entryOfRow :: "db_row \<Rightarrow> CollectionRawDataType" where
  "entryOfRow r =
     (case r of (dateAdded, stixid, modified, specVersion) \<Rightarrow>
        \<lparr>STIXID = stixid, CollectionRawDataType.DateAdded = dateAdded,
         STIXVersion = modified, CollectionRawDataType.SpecVersion = specVersion\<rparr>)"

text \<open>The same datastore with a fetch that fails for one STIX ID.\<close>

definition exampleDatastoreMissing :: "db_row list \<Rightarrow> string \<Rightarrow> string Sqlite3DatastoreType" where
  "exampleDatastoreMissing rows missing =
     (exampleDatastore rows)
       \<lparr>GetObject := (\<lambda>stixid version.
           if stixid = missing then Inl (ExternalError ''object not found'')
           else Inr (stixid @ ''@'' @ version))\<rparr>"

text \<open>
  The same datastore on a runtime that has given the slice of the scanned rows the
  capacity \<open>cap\<close>. The Go runtime doubles a small slice as it grows: three appends to a
  \<^verbatim>\<open>nil\<close> slice leave the length 3 and the capacity 4.
\<close>

definition exampleDatastoreCap :: "db_row list \<Rightarrow> nat \<Rightarrow> string Sqlite3DatastoreType" where
  "exampleDatastoreCap rows cap = (exampleDatastore rows)\<lparr>appendCap := (\<lambda>n. cap)\<rparr>"

text \<open>
  A row of the collections query with the given media types, and a datastore whose
  collections query delivers the given rows.
\<close>

definition exampleCollectionRow :: "string \<Rightarrow> CollectionRow" where
  "exampleCollectionRow mediaType =
     \<lparr>row_dateAdded = ''2018-01-01T00:00:00'', row_enabled = 1, row_hidden = 0,
      row_id = ''c1'', row_title = ''Indicators'', row_description = [],
      row_iCanRead = 1, row_iCanWrite = 0, row_mediaType = mediaType\<rparr>"

definition exampleCollectionsDatastore :: "CollectionRow list \<Rightarrow> string Sqlite3DatastoreType" where
  "exampleCollectionsDatastore rows =
     (exampleDatastore [])\<lparr>DBQueryCollections := (\<lambda>sqlStmt. Some (map Some rows, False))\<rparr>"

text \<open>
  A collection with two media types, and a storage engine that accepts the insert of a
  collection and refuses a media type once the media table holds a row.
\<close>

definition exampleCollection :: CollectionType where
  "exampleCollection =
     \<lparr>CollectionType.DateAdded = [], Enabled = True, Hidden = False, CollectionType.ID = ''c1'',
      Title = ''Indicators'', Description = [], CanRead = True, CanWrite = False,
      MediaTypes = [''application/vnd.oasis.stix+json'', ''application/vnd.oasis.taxii+json'']\<rparr>"

definition exampleEngine :: engine where
  "exampleEngine db call =
     (case call of
        ExecAddCollection dateAdded cid title description canRead canWrite \<Rightarrow> False
      | ExecAddCollectionMediaType cid mediavalue \<Rightarrow> t_collection_media db \<noteq> [])"

definition emptyStore :: Store where
  "emptyStore = \<lparr>t_collections = [], t_collection_media = []\<rparr>"

section \<open>Arithmetic of 64-bit integers\<close>

lemma sint_add_no_wrap:
  fixes a b :: go_int
  assumes "- (2 ^ 63) \<le> sint a + sint b" and "sint a + sint b < 2 ^ 63"
  shows "sint (a + b) = sint a + sint b"
  using assms by (simp add: sint_word_ariths signed_take_bit_int_eq_self)

lemma sint_sub_no_wrap:
  fixes a b :: go_int
  assumes "- (2 ^ 63) \<le> sint a - sint b" and "sint a - sint b < 2 ^ 63"
  shows "sint (a - b) = sint a - sint b"
  using assms by (simp add: sint_word_ariths signed_take_bit_int_eq_self)

lemma sint_bounds64:
  fixes a :: go_int
  shows "- (2 ^ 63) \<le> sint a" and "sint a < 2 ^ 63"
  using sint_ge [of a] sint_lt [of a] by simp_all

lemma sint_eq_0: "(a :: go_int) = 0 \<longleftrightarrow> sint a = 0"
  by (simp add: signed_eq_0_iff)

section \<open>The range resolver\<close>

text \<open>
  Once the three checks have passed, a non-negative \<open>max\<close> and an end below the largest
  \<^verbatim>\<open>int\<close> give a window that starts at \<open>first\<close>, is not empty and ends within the data.
\<close>

lemma processRangeValues_window:
  assumes "processRangeValues first lastv maxv sizev = Inr (windowStart, windowEnd)"
    and "0 \<le> sint maxv" and "sint lastv < 2 ^ 63 - 1"
  shows "windowStart = first \<and> 0 \<le> sint first \<and> sint first < sint windowEnd
           \<and> sint windowEnd \<le> sint sizev"
proof -
  have "sint sizev < 2 ^ 63" and "sint maxv < 2 ^ 63"
    using sint_bounds64 by auto
  with assms show ?thesis
    apply (simp add: processRangeValues_def Let_def sint_eq_0 split: if_splits)
    apply (auto simp add: sint_add_no_wrap sint_sub_no_wrap sint_eq_0)
    done
qed

text \<open>
  C1 (as amended). For every input that passes the validity checks (\<open>first \<ge> 0\<close>,
  \<open>first \<le> last\<close>, \<open>first < size\<close>), with \<open>max \<ge> 0\<close> and \<open>last\<close> below the largest
  64-bit integer, \<^verbatim>\<open>processRangeValues\<close> returns the window of the specification's
  algorithm: the default window \<open>[0, max)\<close> when both bounds are zero and \<open>max > 0\<close>,
  otherwise the inclusive end made exclusive; then the clamp to \<open>size\<close> and the truncation
  to \<open>first + max\<close>.
\<close>

theorem processRangeValues_resolve_spec:
  assumes "0 \<le> sint first" and "sint first \<le> sint lastv" and "sint first < sint sizev"
    and "0 \<le> sint maxv" and "sint lastv < 2 ^ 63 - 1"
  shows "\<exists>windowEnd. processRangeValues first lastv maxv sizev = Inr (first, windowEnd) \<and>
           (sint first, sint windowEnd)
             = resolve_spec (sint first) (sint lastv) (sint maxv) (sint sizev)"
proof -
  have "sint sizev < 2 ^ 63" and "sint maxv < 2 ^ 63"
    using sint_bounds64 by auto
  with assms show ?thesis
    apply (simp add: processRangeValues_def resolve_spec_def Let_def sint_eq_0)
    apply (auto simp add: sint_add_no_wrap sint_sub_no_wrap sint_eq_0)
    done
qed

text \<open>
  The three examples of the specification, each through the theorem:
  \<open>resolve(0,0,5,12) = (0,5)\<close>, \<open>resolve(2,4,0,10) = (2,5)\<close>, \<open>resolve(2,9,3,10) = (2,5)\<close>.
\<close>

theorem processRangeValues_resolve_spec_witness:
  "processRangeValues 0 0 5 12 = Inr (0, 5) \<and> resolve_spec 0 0 5 12 = (0, 5) \<and>
   processRangeValues 2 4 0 10 = Inr (2, 5) \<and> resolve_spec 2 4 0 10 = (2, 5) \<and>
   processRangeValues 2 9 3 10 = Inr (2, 5) \<and> resolve_spec 2 9 3 10 = (2, 5)"
  using processRangeValues_resolve_spec [of 0 0 12 5]
    processRangeValues_resolve_spec [of 2 4 10 0]
    processRangeValues_resolve_spec [of 2 9 10 3]
  by (simp add: resolve_spec_def processRangeValues_def)

text \<open>
  C1 as stated fails for a negative \<open>max\<close>: the input \<open>(0, 0, -1, 5)\<close> passes the three
  checks; the source tests \<open>max != 0\<close>, takes the default path and returns \<open>(0, -1)\<close>,
  where the algorithm of the specification, which tests \<open>max > 0\<close>, gives \<open>(0, 1)\<close>.
  It also fails at the largest \<open>last\<close>: on \<open>(0, 2^63 - 1, 0, 5)\<close> the increment wraps
  around and the source returns \<open>(0, -2^63)\<close>, where the algorithm gives \<open>(0, 5)\<close>.
\<close>

theorem processRangeValues_negative_max_counterexample:
  "0 \<le> sint (0 :: go_int) \<and> sint (0 :: go_int) \<le> sint (0 :: go_int) \<and>
   sint (0 :: go_int) < sint (5 :: go_int) \<and>
   processRangeValues 0 0 (- 1) 5 = Inr (0, - 1) \<and> sint (- 1 :: go_int) = - 1 \<and>
   resolve_spec (sint (0 :: go_int)) (sint (0 :: go_int)) (sint (- 1 :: go_int)) (sint (5 :: go_int))
     = (0, 1) \<and>
   sint (0 :: go_int) \<le> sint (0x7FFFFFFFFFFFFFFF :: go_int) \<and>
   processRangeValues 0 0x7FFFFFFFFFFFFFFF 0 5 = Inr (0, 0x8000000000000000) \<and>
   sint (0x8000000000000000 :: go_int) = - (2 ^ 63) \<and>
   resolve_spec (sint (0 :: go_int)) (sint (0x7FFFFFFFFFFFFFFF :: go_int)) (sint (0 :: go_int))
      (sint (5 :: go_int)) = (0, 5)"
  by (simp add: resolve_spec_def processRangeValues_def)

text \<open>
  C2. For all \<open>size > 0\<close>, \<open>0 \<le> first \<le> last < size\<close> and \<open>max \<ge> 0\<close>,
  \<^verbatim>\<open>processRangeValues\<close> succeeds with a window whose length is at most \<open>max\<close> when
  \<open>max > 0\<close> and whose end is at most \<open>size\<close>.
\<close>

theorem processRangeValues_bounded:
  assumes "0 < sint sizev" and "0 \<le> sint first" and "sint first \<le> sint lastv"
    and "sint lastv < sint sizev" and "0 \<le> sint maxv"
  shows "\<exists>windowStart windowEnd.
           processRangeValues first lastv maxv sizev = Inr (windowStart, windowEnd) \<and>
           (0 < sint maxv \<longrightarrow> sint windowEnd - sint windowStart \<le> sint maxv) \<and>
           sint windowEnd \<le> sint sizev"
proof -
  have "sint sizev < 2 ^ 63" and "sint maxv < 2 ^ 63"
    using sint_bounds64 by auto
  with assms show ?thesis
    apply (simp add: processRangeValues_def Let_def sint_eq_0)
    apply (auto simp add: sint_add_no_wrap sint_sub_no_wrap sint_eq_0)
    done
qed

theorem processRangeValues_bounded_witness:
  "0 < sint (10 :: go_int) \<and> 0 \<le> sint (2 :: go_int) \<and> sint (2 :: go_int) \<le> sint (9 :: go_int) \<and>
   sint (9 :: go_int) < sint (10 :: go_int) \<and> 0 < sint (3 :: go_int) \<and>
   processRangeValues 2 9 3 10 = Inr (2, 5) \<and>
   sint (5 :: go_int) - sint (2 :: go_int) \<le> sint (3 :: go_int) \<and>
   sint (5 :: go_int) \<le> sint (10 :: go_int)"
  using processRangeValues_bounded [of 10 2 9 3]
  by (simp add: processRangeValues_def)

text \<open>
  C3 (as amended). If \<open>first \<ge> size\<close>, \<open>first \<ge> 0\<close> and \<open>first \<le> last\<close>, then
  \<^verbatim>\<open>processRangeValues\<close> returns the error "the starting range value is out of scope",
  whatever \<open>max\<close> is.
\<close>

theorem processRangeValues_out_of_scope:
  assumes "sint sizev \<le> sint first" and "0 \<le> sint first" and "sint first \<le> sint lastv"
  shows "processRangeValues first lastv maxv sizev = Inl StartOutOfScope"
  using assms by (simp add: processRangeValues_def)

theorem processRangeValues_out_of_scope_witness:
  "sint (4 :: go_int) \<le> sint (5 :: go_int) \<and> 0 \<le> sint (5 :: go_int) \<and>
   sint (5 :: go_int) \<le> sint (7 :: go_int) \<and>
   processRangeValues 5 7 0 4 = Inl StartOutOfScope"
  using processRangeValues_out_of_scope [of 4 5 7 0]
  by simp

text \<open>
  C3 as stated fails when \<open>first > last\<close>: the check of the order of the bounds comes
  before the check against \<open>size\<close>, so \<open>(5, 3, 0, 4)\<close>, with \<open>first \<ge> size\<close> and
  \<open>first \<ge> 0\<close>, returns "the starting range value is larger than the ending range
  value".
\<close>

theorem processRangeValues_out_of_scope_counterexample:
  "sint (4 :: go_int) \<le> sint (5 :: go_int) \<and> 0 \<le> sint (5 :: go_int) \<and>
   processRangeValues 5 3 0 4 = Inl StartLargerThanEnd \<and>
   processRangeValues 5 3 0 4 \<noteq> Inl StartOutOfScope"
  by (simp add: processRangeValues_def)

section \<open>The object list\<close>

lemma indexExpr_first: "indexExpr xs 0 = Inr a \<longleftrightarrow> xs \<noteq> [] \<and> a = hd xs"
  by (cases xs) (auto simp: indexExpr_def)

lemma indexExpr_last:
  "indexExpr xs (int (length xs) - 1) = Inr a \<longleftrightarrow> xs \<noteq> [] \<and> a = last xs"
proof (cases "xs = []")
  case True
  then show ?thesis by (simp add: indexExpr_def)
next
  case False
  then have "nat (int (length xs) - 1) = length xs - 1" by simp
  with False show ?thesis
    by (auto simp: indexExpr_def last_conv_nth)
qed

text \<open>A slice expression whose upper bound is within the length cuts the list itself.\<close>

lemma sliceExpr_within:
  assumes "sliceExpr zero cap xs low high = Inr ys" and "sint high \<le> int (length xs)"
  shows "ys = take (nat (sint high) - nat (sint low)) (drop (nat (sint low)) xs)"
  using assms by (auto simp: sliceExpr_def split: if_splits)

lemma scanObjectRows_good:
  "scanObjectRows (map Some rs) acc = Inr (acc @ map entryOfRow rs)"
  by (induction rs arbitrary: acc) (auto simp: entryOfRow_def)

lemmas example_defs =
  exampleDatastore_def exampleDatastoreMissing_def exampleDatastoreCap_def exampleQuery_def tenRows_def exampleRow_def
  entryOfRow_def zeroQueryReturnData_def zeroCollectionRawData_def zeroManifestEntry_def
  InitManifest_def CreateManifestEntry_def InitBundle_def AddObject_def
  sliceExpr_def indexExpr_def processRangeValues_def Let_def

text \<open>
  What a successful \<^verbatim>\<open>GetObjectList\<close> returns, with \<open>matching\<close> the complete matching
  set in the order the engine delivers it: \<^verbatim>\<open>processRangeValues\<close> has resolved a window
  \<open>(windowStart, windowEnd)\<close> on the size of the matching set, the entries are the slice
  expression of the source on that window (\<open>take\<close> and \<open>drop\<close> on the matching set when
  the window ends within it) and are not empty, and the metadata has \<open>Size\<close> the number
  of matching entries, \<open>RangeBegin = windowStart\<close>, \<open>RangeEnd = windowEnd - 1\<close> and the
  added timestamps of the first and last entry returned. With 10 matching rows,
  \<open>RangeMax = 4\<close> and no range requested, the call succeeds with the first 4 entries,
  \<open>Size = 10\<close>, \<open>RangeBegin = 0\<close> and \<open>RangeEnd = 3\<close>.
\<close>

lemma GetObjectList_success:
  assumes "sqlGetObjectList ds query = Inr sqlStmt"
    and "DBQuery ds sqlStmt = Some rows"
    and "scanObjectRows rows [] = Inr matching"
  shows "(GetObjectList ds query = Inr (entries, metaData) \<longrightarrow>
      (\<exists>windowStart windowEnd.
         processRangeValues (QueryType.RangeBegin query) (QueryType.RangeEnd query) (RangeMax query)
           (of_nat (length matching)) = Inr (windowStart, windowEnd) \<and>
         sliceExpr zeroCollectionRawData (appendCap ds (length matching)) matching
           windowStart windowEnd = Inr entries \<and>
         (sint windowEnd \<le> int (length matching) \<longrightarrow>
            entries = take (nat (sint windowEnd) - nat (sint windowStart))
                        (drop (nat (sint windowStart)) matching)) \<and>
         entries \<noteq> [] \<and>
         Size metaData = of_nat (length matching) \<and>
         QueryReturnDataType.RangeBegin metaData = windowStart \<and>
         QueryReturnDataType.RangeEnd metaData = windowEnd - 1 \<and>
         DateAddedFirst metaData = CollectionRawDataType.DateAdded (hd entries) \<and>
         DateAddedLast metaData = CollectionRawDataType.DateAdded (last entries)))
    \<and> (length matching = 10 \<and> QueryType.RangeBegin query = 0 \<and> QueryType.RangeEnd query = 0 \<and>
         RangeMax query = 4 \<longrightarrow>
         GetObjectList ds query = Inr (take 4 matching,
           \<lparr>Size = 10,
            DateAddedFirst = CollectionRawDataType.DateAdded (matching ! 0),
            DateAddedLast = CollectionRawDataType.DateAdded (matching ! 3),
            QueryReturnDataType.RangeBegin = 0, QueryReturnDataType.RangeEnd = 3\<rparr>))"
proof (intro conjI impI)
  assume ok: "GetObjectList ds query = Inr (entries, metaData)"
  from ok assms obtain windowStart windowEnd where
    p: "processRangeValues (QueryType.RangeBegin query) (QueryType.RangeEnd query) (RangeMax query)
           (of_nat (length matching)) = Inr (windowStart, windowEnd)"
    by (auto simp: GetObjectList_def Let_def zeroQueryReturnData_def split: if_splits sum.splits)
  from ok assms p have s:
    "sliceExpr zeroCollectionRawData (appendCap ds (length matching)) matching
           windowStart windowEnd = Inr entries"
    by (auto simp: GetObjectList_def Let_def zeroQueryReturnData_def split: if_splits sum.splits)
  from ok assms p s obtain firstEntry lastEntry where
    i: "indexExpr entries 0 = Inr firstEntry"
       "indexExpr entries (int (length entries) - 1) = Inr lastEntry"
    and m: "metaData = \<lparr>Size = of_nat (length matching),
            DateAddedFirst = CollectionRawDataType.DateAdded firstEntry,
            DateAddedLast = CollectionRawDataType.DateAdded lastEntry,
            QueryReturnDataType.RangeBegin = windowStart,
            QueryReturnDataType.RangeEnd = windowEnd - 1\<rparr>"
    by (auto simp: GetObjectList_def Let_def zeroQueryReturnData_def split: if_splits sum.splits)
  from i have ne: "entries \<noteq> []" "firstEntry = hd entries" "lastEntry = last entries"
    by (simp_all add: indexExpr_first indexExpr_last)
  show "\<exists>windowStart windowEnd.
         processRangeValues (QueryType.RangeBegin query) (QueryType.RangeEnd query) (RangeMax query)
           (of_nat (length matching)) = Inr (windowStart, windowEnd) \<and>
         sliceExpr zeroCollectionRawData (appendCap ds (length matching)) matching
           windowStart windowEnd = Inr entries \<and>
         (sint windowEnd \<le> int (length matching) \<longrightarrow>
            entries = take (nat (sint windowEnd) - nat (sint windowStart))
                        (drop (nat (sint windowStart)) matching)) \<and>
         entries \<noteq> [] \<and>
         Size metaData = of_nat (length matching) \<and>
         QueryReturnDataType.RangeBegin metaData = windowStart \<and>
         QueryReturnDataType.RangeEnd metaData = windowEnd - 1 \<and>
         DateAddedFirst metaData = CollectionRawDataType.DateAdded (hd entries) \<and>
         DateAddedLast metaData = CollectionRawDataType.DateAdded (last entries)"
    using p s ne m sliceExpr_within [OF s] by auto
next
  assume h: "length matching = 10 \<and> QueryType.RangeBegin query = 0 \<and>
         QueryType.RangeEnd query = 0 \<and> RangeMax query = 4"
  have p: "processRangeValues 0 0 4 10 = Inr (0, 4)"
    by (simp add: processRangeValues_def)
  have s: "sliceExpr zeroCollectionRawData (appendCap ds 10) matching 0 4 = Inr (take 4 matching)"
    using h by (simp add: sliceExpr_def)
  have l: "length (take 4 matching) = 4" using h by simp
  have i: "indexExpr (take 4 matching) 0 = Inr (matching ! 0)"
    "indexExpr (take 4 matching) (int (length (take 4 matching)) - 1) = Inr (matching ! 3)"
    using h unfolding l by (auto simp add: indexExpr_def l)
  show "GetObjectList ds query = Inr (take 4 matching,
           \<lparr>Size = 10,
            DateAddedFirst = CollectionRawDataType.DateAdded (matching ! 0),
            DateAddedLast = CollectionRawDataType.DateAdded (matching ! 3),
            QueryReturnDataType.RangeBegin = 0, QueryReturnDataType.RangeEnd = 3\<rparr>)"
    using h assms p s i
    by (simp add: GetObjectList_def Let_def zeroQueryReturnData_def)
qed

text \<open>
  The end-to-end example of the specification on the ten rows: the four earliest entries,
  \<open>Size = 10\<close>, \<open>RangeBegin = 0\<close>, \<open>RangeEnd = 3\<close>, the timestamps of the first and the
  fourth row.
\<close>

lemma GetObjectList_ten_rows:
  "sqlGetObjectList (exampleDatastore tenRows) (exampleQuery 0 0 4) = Inr ''objects of c1'' \<and>
   DBQuery (exampleDatastore tenRows) ''objects of c1'' = Some (map Some tenRows) \<and>
   scanObjectRows (map Some tenRows) [] = Inr (map entryOfRow tenRows) \<and>
   length (map entryOfRow tenRows) = 10 \<and>
   GetObjectList (exampleDatastore tenRows) (exampleQuery 0 0 4) =
     Inr (map entryOfRow (map exampleRow [''01'', ''02'', ''03'', ''04'']),
          \<lparr>Size = 10, DateAddedFirst = ''2018-01-01T00:00:01'',
           DateAddedLast = ''2018-01-01T00:00:04'',
           QueryReturnDataType.RangeBegin = 0, QueryReturnDataType.RangeEnd = 3\<rparr>) \<and>
   processRangeValues 0 0 4 (of_nat (length (map entryOfRow tenRows))) = Inr (0, 4)"
  using GetObjectList_success [of "exampleDatastore tenRows" "exampleQuery 0 0 4"
      "''objects of c1''" "map Some tenRows" "map entryOfRow tenRows"
      "map entryOfRow (map exampleRow [''01'', ''02'', ''03'', ''04''])"
      "\<lparr>Size = 10, DateAddedFirst = ''2018-01-01T00:00:01'',
        DateAddedLast = ''2018-01-01T00:00:04'',
        QueryReturnDataType.RangeBegin = 0, QueryReturnDataType.RangeEnd = 3\<rparr>"]
  by (simp add: GetObjectList_def example_defs)

text \<open>A length below \<open>2^63\<close> is read back unchanged from the 64-bit \<^verbatim>\<open>int\<close>.\<close>

lemma sint_of_nat_length:
  assumes "n < 2 ^ 63"
  shows "sint (of_nat n :: go_int) = int n"
proof -
  have "sint (word_of_int (int n) :: go_int) = signed_take_bit (LENGTH(64) - 1) (int n)"
    by (rule sint_sbintrunc')
  moreover have "signed_take_bit (LENGTH(64) - 1) (int n) = int n"
    using assms by (simp add: signed_take_bit_int_eq_self)
  ultimately show ?thesis by simp
qed

text \<open>
  With \<open>RangeMax \<ge> 0\<close> and \<open>RangeEnd\<close> below the largest \<^verbatim>\<open>int\<close>, the entries of a
  successful \<^verbatim>\<open>GetObjectList\<close> are the matching set cut to the resolved window, and the
  window lies within the matching set.
\<close>

lemma GetObjectList_success_no_wrap:
  assumes "sqlGetObjectList ds query = Inr sqlStmt"
    and "DBQuery ds sqlStmt = Some rows"
    and "scanObjectRows rows [] = Inr matching"
    and "length matching < 2 ^ 63"
    and "0 \<le> sint (RangeMax query)"
    and "sint (QueryType.RangeEnd query) < 2 ^ 63 - 1"
    and "GetObjectList ds query = Inr (entries, metaData)"
  shows "\<exists>windowStart windowEnd.
           processRangeValues (QueryType.RangeBegin query) (QueryType.RangeEnd query)
             (RangeMax query) (of_nat (length matching)) = Inr (windowStart, windowEnd) \<and>
           0 \<le> sint windowStart \<and> sint windowStart < sint windowEnd \<and>
           sint windowEnd \<le> int (length matching) \<and>
           entries = take (nat (sint windowEnd) - nat (sint windowStart))
                       (drop (nat (sint windowStart)) matching) \<and>
           set entries \<subseteq> set matching"
proof -
  from GetObjectList_success [OF assms(1,2,3), of entries metaData] assms(7)
  obtain windowStart windowEnd where
    p: "processRangeValues (QueryType.RangeBegin query) (QueryType.RangeEnd query)
             (RangeMax query) (of_nat (length matching)) = Inr (windowStart, windowEnd)"
    and e: "sint windowEnd \<le> int (length matching) \<longrightarrow>
            entries = take (nat (sint windowEnd) - nat (sint windowStart))
                        (drop (nat (sint windowStart)) matching)"
    by blast
  from processRangeValues_window [OF p assms(5,6)] sint_of_nat_length [OF assms(4)]
  have w: "0 \<le> sint windowStart" "sint windowStart < sint windowEnd"
    "sint windowEnd \<le> int (length matching)"
    by simp_all
  with e have t: "entries = take (nat (sint windowEnd) - nat (sint windowStart))
                        (drop (nat (sint windowStart)) matching)"
    by simp
  then have "set entries \<subseteq> set matching"
    by (metis set_take_subset set_drop_subset subset_trans)
  with p w t show ?thesis by blast
qed

text \<open>
  C6. \<^verbatim>\<open>GetObjectList\<close> can succeed with entries that are not the matching set sliced
  to a window of it. With 3 matching rows (capacity 4 after three appends),
  \<open>RangeBegin = 1\<close>, \<open>RangeEnd\<close> the largest 64-bit integer and \<open>RangeMax = 3\<close>, the
  increment of \<^verbatim>\<open>last\<close> wraps around, the truncation to \<open>first + max\<close> sets the end to 4,
  and \<^verbatim>\<open>processRangeValues\<close> returns the window \<open>(1, 4)\<close> on a set of size 3. The slice
  expression is within the capacity, so the call succeeds and returns the second and
  third row followed by a zero-valued entry that matches nothing, with an empty
  \<open>DateAddedLast\<close> and \<open>RangeEnd = 3\<close>, past the last matching index 2.
\<close>

theorem GetObjectList_window_past_matching_set:
  "scanObjectRows (map Some (take 3 tenRows)) [] = Inr (map entryOfRow (take 3 tenRows)) \<and>
   processRangeValues 1 0x7FFFFFFFFFFFFFFF 3 3 = Inr (1, 4) \<and>
   GetObjectList (exampleDatastoreCap (take 3 tenRows) 4) (exampleQuery 1 0x7FFFFFFFFFFFFFFF 3) =
     Inr ([entryOfRow (exampleRow ''02''), entryOfRow (exampleRow ''03''), zeroCollectionRawData],
          \<lparr>Size = 3, DateAddedFirst = ''2018-01-01T00:00:02'', DateAddedLast = [],
           QueryReturnDataType.RangeBegin = 1, QueryReturnDataType.RangeEnd = 3\<rparr>) \<and>
   zeroCollectionRawData \<notin> set (map entryOfRow (take 3 tenRows))"
  by (simp add: GetObjectList_def example_defs)

section \<open>The manifest\<close>

text \<open>
  C4. On an empty matching set \<^verbatim>\<open>GetManifestData\<close> does not return "no records
  returned": it has no test for the empty set, goes on to \<^verbatim>\<open>processRangeValues\<close> with
  \<open>size = 0\<close> and returns its error "the starting range value is out of scope".
  \<^verbatim>\<open>GetObjectList\<close> on the same datastore and query returns "no records returned".
\<close>

theorem GetManifestData_empty_set:
  "GetManifestData (exampleDatastore []) (exampleQuery 0 0 0) = Inl StartOutOfScope \<and>
   GetObjectList (exampleDatastore []) (exampleQuery 0 0 0) = Inl NoRecordsReturned"
  by (simp add: GetObjectList_def GetManifestData_def example_defs)

text \<open>
  C5. On success \<^verbatim>\<open>GetManifestData\<close> leaves \<open>RangeBegin\<close> and \<open>RangeEnd\<close> of the
  metadata at zero: on the ten rows with the range \<open>2..4\<close> the window is \<open>(2, 5)\<close>, the
  metadata has \<open>Size = 10\<close> and the timestamps of the third and fifth row, and
  \<open>RangeBegin = 0\<close>, \<open>RangeEnd = 0\<close>, where \<^verbatim>\<open>GetObjectList\<close> reports \<open>2\<close> and \<open>4\<close>.
\<close>

theorem GetManifestData_range_not_reported:
  "processRangeValues 2 4 0 10 = Inr (2, 5) \<and>
   map_sum id snd (GetManifestData (exampleDatastore tenRows) (exampleQuery 2 4 0)) =
     Inr \<lparr>Size = 10, DateAddedFirst = ''2018-01-01T00:00:03'',
          DateAddedLast = ''2018-01-01T00:00:05'',
          QueryReturnDataType.RangeBegin = 0, QueryReturnDataType.RangeEnd = 0\<rparr> \<and>
   map_sum id snd (GetObjectList (exampleDatastore tenRows) (exampleQuery 2 4 0)) =
     Inr \<lparr>Size = 10, DateAddedFirst = ''2018-01-01T00:00:03'',
          DateAddedLast = ''2018-01-01T00:00:05'',
          QueryReturnDataType.RangeBegin = 2, QueryReturnDataType.RangeEnd = 4\<rparr>"
  by (simp add: GetObjectList_def GetManifestData_def example_defs)

section \<open>The window and the slice\<close>

text \<open>
  C10. With \<open>max = 0\<close> and \<open>last\<close> the largest 64-bit integer, \<^verbatim>\<open>last++\<close> wraps around
  to the smallest one: \<^verbatim>\<open>processRangeValues\<close> returns the window \<open>(0, -2^63)\<close> without an
  error, and the slice expression of \<^verbatim>\<open>GetObjectList\<close> and of \<^verbatim>\<open>GetManifestData\<close>
  panics on it.
\<close>

theorem processRangeValues_wraps_at_max_int:
  "0 \<le> sint (0 :: go_int) \<and>
   processRangeValues 0 0x7FFFFFFFFFFFFFFF 0 5 = Inr (0, 0x8000000000000000) \<and>
   sint (0x7FFFFFFFFFFFFFFF :: go_int) = 2 ^ 63 - 1 \<and>
   sint (0x8000000000000000 :: go_int) = - (2 ^ 63) \<and>
   GetObjectList (exampleDatastore (take 5 tenRows)) (exampleQuery 0 0x7FFFFFFFFFFFFFFF 0)
     = Inl RuntimePanic \<and>
   GetManifestData (exampleDatastore (take 5 tenRows)) (exampleQuery 0 0x7FFFFFFFFFFFFFFF 0)
     = Inl RuntimePanic"
  by (simp add: GetObjectList_def GetManifestData_def example_defs)

section \<open>The bundle\<close>

text \<open>When every fetch succeeds the loop adds the payloads in the order of the entries.\<close>

lemma bundleLoop_success:
  assumes "\<forall>v \<in> set vs. \<exists>obj. GetObject ds (STIXID v) (STIXVersion v) = Inr obj"
  shows "\<exists>objs. bundleLoop ds vs b = Inr (b\<lparr>BundleType.Objects := BundleType.Objects b @ objs\<rparr>) \<and>
           map Inr objs = map (\<lambda>v. GetObject ds (STIXID v) (STIXVersion v)) vs"
  using assms
proof (induction vs arbitrary: b)
  case Nil
  then show ?case by simp
next
  case (Cons v vs)
  then obtain obj where o: "GetObject ds (STIXID v) (STIXVersion v) = Inr obj" by auto
  from Cons obtain objs where
    "bundleLoop ds vs (AddObject b obj) =
       Inr ((AddObject b obj)\<lparr>BundleType.Objects := BundleType.Objects (AddObject b obj) @ objs\<rparr>)"
    "map Inr objs = map (\<lambda>v. GetObject ds (STIXID v) (STIXVersion v)) vs"
    by fastforce
  with o show ?case
    by (intro exI [of _ "obj # objs"]) (simp add: AddObject_def)
qed

text \<open>The first fetch that fails ends the loop with its error.\<close>

lemma bundleLoop_failure:
  assumes "i < length vs"
    and "\<forall>j<i. \<exists>obj. GetObject ds (STIXID (vs ! j)) (STIXVersion (vs ! j)) = Inr obj"
    and "GetObject ds (STIXID (vs ! i)) (STIXVersion (vs ! i)) = Inl err"
  shows "bundleLoop ds vs b = Inl err"
  using assms
proof (induction vs arbitrary: i b)
  case Nil
  then show ?case by simp
next
  case (Cons v vs)
  show ?case
  proof (cases i)
    case 0
    with Cons.prems show ?thesis by simp
  next
    case (Suc k)
    with Cons.prems have "\<exists>obj. GetObject ds (STIXID v) (STIXVersion v) = Inr obj"
      by (metis nth_Cons_0 zero_less_Suc)
    then obtain obj where o: "GetObject ds (STIXID v) (STIXVersion v) = Inr obj" ..
    have "bundleLoop ds vs (AddObject b obj) = Inl err"
    proof (rule Cons.IH [of k])
      show "k < length vs" using Cons.prems Suc by simp
      show "\<forall>j<k. \<exists>obj. GetObject ds (STIXID (vs ! j)) (STIXVersion (vs ! j)) = Inr obj"
      proof (intro allI impI)
        fix j assume "j < k"
        then have "Suc j < i" using Suc by simp
        with Cons.prems(2)
        show "\<exists>obj. GetObject ds (STIXID (vs ! j)) (STIXVersion (vs ! j)) = Inr obj"
          by (metis nth_Cons_Suc)
      qed
      show "GetObject ds (STIXID (vs ! k)) (STIXVersion (vs ! k)) = Inl err"
        using Cons.prems Suc by simp
    qed
    with o show ?thesis by simp
  qed
qed

text \<open>A bundle that comes out of the loop holds a payload for every entry.\<close>

lemma bundleLoop_complete:
  assumes "bundleLoop ds vs b = Inr b'"
  shows "\<exists>objs. b' = b\<lparr>BundleType.Objects := BundleType.Objects b @ objs\<rparr> \<and>
           map Inr objs = map (\<lambda>v. GetObject ds (STIXID v) (STIXVersion v)) vs"
  using assms
proof (induction vs arbitrary: b)
  case Nil
  then show ?case by simp
next
  case (Cons v vs)
  then obtain obj where o: "GetObject ds (STIXID v) (STIXVersion v) = Inr obj"
    and r: "bundleLoop ds vs (AddObject b obj) = Inr b'"
    by (auto split: sum.splits)
  from Cons.IH [OF r] obtain objs where
    "b' = (AddObject b obj)\<lparr>BundleType.Objects := BundleType.Objects (AddObject b obj) @ objs\<rparr>"
    "map Inr objs = map (\<lambda>v. GetObject ds (STIXID v) (STIXVersion v)) vs"
    by blast
  with o show ?case
    by (intro exI [of _ "obj # objs"]) (simp add: AddObject_def)
qed

text \<open>
  C8. Let \<^verbatim>\<open>GetObjectList\<close> return the entries \<open>[e1, ..., en]\<close>. If every fetch by
  \<open>(STIXID, STIXVersion)\<close> succeeds, \<^verbatim>\<open>GetBundle\<close> returns the metadata and a bundle whose
  objects are exactly the fetched payloads in the order of the entries. If the fetch of
  entry \<open>i\<close> is the first that fails, \<^verbatim>\<open>GetBundle\<close> returns that error and no bundle.
  Whenever a bundle is returned, it holds the payload of every entry: never a part.
\<close>

theorem GetBundle_all_or_nothing:
  assumes "GetObjectList ds query = Inr (entries, metaData)"
  shows "((\<forall>v \<in> set entries. \<exists>obj. GetObject ds (STIXID v) (STIXVersion v) = Inr obj) \<longrightarrow>
            (\<exists>objs. GetBundle ds query = Inr (\<lparr>BundleType.Objects = objs\<rparr>, metaData) \<and>
               map Inr objs = map (\<lambda>v. GetObject ds (STIXID v) (STIXVersion v)) entries))
       \<and> (\<forall>i err. i < length entries \<and>
            (\<forall>j<i. \<exists>obj. GetObject ds (STIXID (entries ! j)) (STIXVersion (entries ! j)) = Inr obj) \<and>
            GetObject ds (STIXID (entries ! i)) (STIXVersion (entries ! i)) = Inl err
            \<longrightarrow> GetBundle ds query = Inl err)
       \<and> (\<forall>stixBundle metaData'. GetBundle ds query = Inr (stixBundle, metaData') \<longrightarrow>
            metaData' = metaData \<and>
            map Inr (BundleType.Objects stixBundle)
              = map (\<lambda>v. GetObject ds (STIXID v) (STIXVersion v)) entries)"
proof (intro conjI allI impI)
  assume "\<forall>v \<in> set entries. \<exists>obj. GetObject ds (STIXID v) (STIXVersion v) = Inr obj"
  from bundleLoop_success [OF this, of InitBundle] assms
  show "\<exists>objs. GetBundle ds query = Inr (\<lparr>BundleType.Objects = objs\<rparr>, metaData) \<and>
               map Inr objs = map (\<lambda>v. GetObject ds (STIXID v) (STIXVersion v)) entries"
    by (auto simp: GetBundle_def InitBundle_def)
next
  fix i err
  assume "i < length entries \<and>
            (\<forall>j<i. \<exists>obj. GetObject ds (STIXID (entries ! j)) (STIXVersion (entries ! j)) = Inr obj) \<and>
            GetObject ds (STIXID (entries ! i)) (STIXVersion (entries ! i)) = Inl err"
  then have "bundleLoop ds entries InitBundle = Inl err"
    using bundleLoop_failure [of i entries ds err InitBundle] by blast
  with assms show "GetBundle ds query = Inl err"
    by (simp add: GetBundle_def)
next
  fix stixBundle metaData'
  assume "GetBundle ds query = Inr (stixBundle, metaData')"
  with assms have l: "bundleLoop ds entries InitBundle = Inr stixBundle"
    and m: "metaData' = metaData"
    by (auto simp: GetBundle_def split: sum.splits)
  from m show "metaData' = metaData" .
  from bundleLoop_complete [OF l]
  show "map Inr (BundleType.Objects stixBundle)
              = map (\<lambda>v. GetObject ds (STIXID v) (STIXVersion v)) entries"
    by (auto simp: InitBundle_def)
qed

text \<open>
  On the ten rows with a window of three entries: the bundle of the three payloads in
  order; and, when the fetch of the second entry fails, its error and no bundle.
\<close>

theorem GetBundle_all_or_nothing_witness:
  "GetObjectList (exampleDatastore tenRows) (exampleQuery 0 0 3) =
     Inr (map entryOfRow (map exampleRow [''01'', ''02'', ''03'']),
          \<lparr>Size = 10, DateAddedFirst = ''2018-01-01T00:00:01'',
           DateAddedLast = ''2018-01-01T00:00:03'',
           QueryReturnDataType.RangeBegin = 0, QueryReturnDataType.RangeEnd = 2\<rparr>) \<and>
   GetBundle (exampleDatastore tenRows) (exampleQuery 0 0 3) =
     Inr (\<lparr>BundleType.Objects =
            [''indicator--01@2018-02-01'', ''indicator--02@2018-02-02'',
             ''indicator--03@2018-02-03'']\<rparr>,
          \<lparr>Size = 10, DateAddedFirst = ''2018-01-01T00:00:01'',
           DateAddedLast = ''2018-01-01T00:00:03'',
           QueryReturnDataType.RangeBegin = 0, QueryReturnDataType.RangeEnd = 2\<rparr>) \<and>
   GetObjectList (exampleDatastoreMissing tenRows ''indicator--02'') (exampleQuery 0 0 3) =
     Inr (map entryOfRow (map exampleRow [''01'', ''02'', ''03'']),
          \<lparr>Size = 10, DateAddedFirst = ''2018-01-01T00:00:01'',
           DateAddedLast = ''2018-01-01T00:00:03'',
           QueryReturnDataType.RangeBegin = 0, QueryReturnDataType.RangeEnd = 2\<rparr>) \<and>
   GetObject (exampleDatastoreMissing tenRows ''indicator--02'') ''indicator--02'' ''2018-02-02''
     = Inl (ExternalError ''object not found'') \<and>
   GetBundle (exampleDatastoreMissing tenRows ''indicator--02'') (exampleQuery 0 0 3)
     = Inl (ExternalError ''object not found'')"
proof -
  let ?es = "map entryOfRow (map exampleRow [''01'', ''02'', ''03''])"
  let ?m = "\<lparr>Size = 10, DateAddedFirst = ''2018-01-01T00:00:01'',
           DateAddedLast = ''2018-01-01T00:00:03'',
           QueryReturnDataType.RangeBegin = 0, QueryReturnDataType.RangeEnd = 2\<rparr>"
  let ?ds = "exampleDatastore tenRows"
  let ?dm = "exampleDatastoreMissing tenRows ''indicator--02''"
  have l1: "GetObjectList ?ds (exampleQuery 0 0 3) = Inr (?es, ?m)"
    by (simp add: GetObjectList_def example_defs)
  have l2: "GetObjectList ?dm (exampleQuery 0 0 3) = Inr (?es, ?m)"
    by (simp add: GetObjectList_def example_defs)
  have f1: "\<forall>v \<in> set ?es. \<exists>obj. GetObject ?ds (STIXID v) (STIXVersion v) = Inr obj"
    by (simp add: example_defs)
  from GetBundle_all_or_nothing [OF l1] f1 obtain objs where
    b: "GetBundle ?ds (exampleQuery 0 0 3) = Inr (\<lparr>BundleType.Objects = objs\<rparr>, ?m)"
    and o: "map Inr objs = map (\<lambda>v. GetObject ?ds (STIXID v) (STIXVersion v)) ?es"
    by blast
  from o have "objs = [''indicator--01@2018-02-01'', ''indicator--02@2018-02-02'',
             ''indicator--03@2018-02-03'']"
    by (auto simp: example_defs)
  with b have g1: "GetBundle ?ds (exampleQuery 0 0 3) =
     Inr (\<lparr>BundleType.Objects =
            [''indicator--01@2018-02-01'', ''indicator--02@2018-02-02'',
             ''indicator--03@2018-02-03'']\<rparr>, ?m)"
    by simp
  have f2: "GetObject ?dm ''indicator--02'' ''2018-02-02'' = Inl (ExternalError ''object not found'')"
    by (simp add: example_defs)
  have "1 < length ?es \<and>
          (\<forall>j<1. \<exists>obj. GetObject ?dm (STIXID (?es ! j)) (STIXVersion (?es ! j)) = Inr obj) \<and>
          GetObject ?dm (STIXID (?es ! 1)) (STIXVersion (?es ! 1))
            = Inl (ExternalError ''object not found'')"
    by (simp add: example_defs)
  with GetBundle_all_or_nothing [OF l2]
  have g2: "GetBundle ?dm (exampleQuery 0 0 3) = Inl (ExternalError ''object not found'')"
    by blast
  from l1 g1 l2 f2 g2 show ?thesis by blast
qed

section \<open>Media types of a collection\<close>

lemma addMediaTypes_upto:
  "fold (\<lambda>i c. if i > 0 \<and> mts ! i = mts ! (i - 1) then c else AddMediaType c (mts ! i)) [0 ..< n] c
     = c\<lparr>MediaTypes := MediaTypes c @
           map (\<lambda>i. mts ! i) (filter (\<lambda>i. \<not> (0 < i \<and> mts ! i = mts ! (i - 1))) [0 ..< n])\<rparr>"
  by (induction n) (auto simp: AddMediaType_def)

text \<open>Keeping the entries that differ from their predecessor is \<open>remdups_adj\<close>.\<close>

lemma kept_indices_remdups_adj:
  "n \<le> length mts \<Longrightarrow>
     map (\<lambda>i. mts ! i) (filter (\<lambda>i. \<not> (0 < i \<and> mts ! i = mts ! (i - 1))) [0 ..< n])
       = remdups_adj (take n mts)"
proof (induction n)
  case 0
  then show ?case by simp
next
  case (Suc n)
  show ?case
  proof (cases n)
    case 0
    with Suc.prems show ?thesis by (cases mts) auto
  next
    case (Suc k)
    with Suc.prems have t: "take (Suc n) mts = take k mts @ [mts ! k, mts ! n]"
      "take n mts = take k mts @ [mts ! k]"
      by (simp_all add: take_Suc_conv_app_nth)
    from Suc.IH Suc.prems show ?thesis
      unfolding t(1) remdups_adj_append_two
      using t(2) Suc by auto
  qed
qed

lemma MediaTypes_addMediaTypes_indices:
  "MediaTypes (addMediaTypes mts c) = MediaTypes c @
     map (\<lambda>i. mts ! i) (filter (\<lambda>i. \<not> (0 < i \<and> mts ! i = mts ! (i - 1))) [0 ..< length mts])"
  unfolding addMediaTypes_def addMediaTypes_upto by simp

lemma MediaTypes_addMediaTypes:
  "MediaTypes (addMediaTypes mts c) = MediaTypes c @ remdups_adj mts"
proof -
  have "map (\<lambda>i. mts ! i) (filter (\<lambda>i. \<not> (0 < i \<and> mts ! i = mts ! (i - 1))) [0 ..< length mts])
          = remdups_adj (take (length mts) mts)"
    by (rule kept_indices_remdups_adj) simp
  then show ?thesis
    unfolding MediaTypes_addMediaTypes_indices by simp
qed

lemmas setter_defs =
  zeroCollection_def SetEnabled_def SetDisabled_def SetHidden_def SetVisible_def
  SetID_def SetTitle_def SetDescription_def SetCanRead_def SetCanWrite_def

lemma MediaTypes_collectionOfRow:
  "MediaTypes (collectionOfRow r) = remdups_adj (Split (row_mediaType r) CHR '','')"
  by (simp add: collectionOfRow_def Let_def MediaTypes_addMediaTypes setter_defs)

lemma MediaTypes_collectionOfRow_indices:
  "MediaTypes (collectionOfRow r) =
     map (\<lambda>i. Split (row_mediaType r) CHR '','' ! i)
       (filter (\<lambda>i. \<not> (0 < i \<and> Split (row_mediaType r) CHR '','' ! i
                               = Split (row_mediaType r) CHR '','' ! (i - 1)))
          [0 ..< length (Split (row_mediaType r) CHR '','')])"
  by (simp add: collectionOfRow_def Let_def MediaTypes_addMediaTypes_indices setter_defs)

lemma collectionsLoop_success:
  "collectionsLoop rows acc = Inr allCollections \<Longrightarrow>
     \<exists>rs. rows = map Some rs \<and>
          Collections allCollections = Collections acc @ map collectionOfRow rs"
proof (induction rows acc rule: collectionsLoop.induct)
  case (1 allCollections)
  then show ?case by simp
next
  case (2 rows allCollections)
  then show ?case by simp
next
  case (3 r rows acc)
  then obtain rs where "rows = map Some rs"
    "Collections allCollections = Collections acc @ collectionOfRow r # map collectionOfRow rs"
    by auto
  then show ?case by (intro exI [of _ "r # rs"]) simp
qed

text \<open>
  C7. When \<^verbatim>\<open>getCollections\<close> succeeds, every row of the query was scanned and the
  media types of the collection built from a row are the entries of its comma-delimited
  list with consecutive duplicates collapsed (\<open>remdups_adj\<close>); that is, the entry at
  index \<open>i\<close> of the split list is left out if and only if \<open>i > 0\<close> and it equals the entry
  at \<open>i - 1\<close>. A duplicate that is not adjacent stays.
\<close>

theorem getCollections_media_types:
  assumes "getCollections ds whichCollections = Inr allCollections"
  shows "\<exists>rows. DBQueryCollections ds (sqlGetAllCollections ds whichCollections)
                  = Some (map Some rows, False) \<and>
           map MediaTypes (Collections allCollections)
             = map (\<lambda>r. remdups_adj (Split (row_mediaType r) CHR '','')) rows \<and>
           map MediaTypes (Collections allCollections)
             = map (\<lambda>r. map (\<lambda>i. Split (row_mediaType r) CHR '','' ! i)
                   (filter (\<lambda>i. \<not> (0 < i \<and> Split (row_mediaType r) CHR '','' ! i
                                           = Split (row_mediaType r) CHR '','' ! (i - 1)))
                      [0 ..< length (Split (row_mediaType r) CHR '','')])) rows"
proof -
  from assms obtain rows where
    q: "DBQueryCollections ds (sqlGetAllCollections ds whichCollections) = Some (rows, False)"
    and l: "collectionsLoop rows InitCollections = Inr allCollections"
    by (auto simp: getCollections_def split: option.splits sum.splits if_splits)
  from collectionsLoop_success [OF l] obtain rs where
    rs: "rows = map Some rs" "Collections allCollections = map collectionOfRow rs"
    by (auto simp: InitCollections_def)
  have "map MediaTypes (Collections allCollections)
             = map (\<lambda>r. remdups_adj (Split (row_mediaType r) CHR '','')) rs"
    unfolding rs(2) by (simp add: MediaTypes_collectionOfRow)
  moreover have "map MediaTypes (Collections allCollections)
             = map (\<lambda>r. map (\<lambda>i. Split (row_mediaType r) CHR '','' ! i)
                   (filter (\<lambda>i. \<not> (0 < i \<and> Split (row_mediaType r) CHR '','' ! i
                                           = Split (row_mediaType r) CHR '','' ! (i - 1)))
                      [0 ..< length (Split (row_mediaType r) CHR '','')])) rs"
    unfolding rs(2) map_map comp_def
    by (subst MediaTypes_collectionOfRow_indices) (rule refl)
  ultimately show ?thesis using q rs(1) by blast
qed

text \<open>
  The two lists of the specification: \<open>a,a,b\<close> gives the two entries \<open>a, b\<close>, and
  \<open>a,b,a\<close> gives the three entries \<open>a, b, a\<close>.
\<close>

theorem getCollections_media_types_witness:
  "getCollections
     (exampleCollectionsDatastore [exampleCollectionRow ''a,a,b'', exampleCollectionRow ''a,b,a''])
     ''all'' =
     Inr \<lparr>Collections =
        [\<lparr>CollectionType.DateAdded = ''2018-01-01T00:00:00'', Enabled = True, Hidden = False,
          CollectionType.ID = ''c1'', Title = ''Indicators'', Description = [], CanRead = True,
          CanWrite = False, MediaTypes = [''a'', ''b'']\<rparr>,
         \<lparr>CollectionType.DateAdded = ''2018-01-01T00:00:00'', Enabled = True, Hidden = False,
          CollectionType.ID = ''c1'', Title = ''Indicators'', Description = [], CanRead = True,
          CanWrite = False, MediaTypes = [''a'', ''b'', ''a'']\<rparr>]\<rparr> \<and>
   Split ''a,a,b'' CHR '','' = [''a'', ''a'', ''b''] \<and>
   Split ''a,b,a'' CHR '','' = [''a'', ''b'', ''a'']"
proof -
  let ?ds = "exampleCollectionsDatastore
               [exampleCollectionRow ''a,a,b'', exampleCollectionRow ''a,b,a'']"
  have s: "Split ''a,a,b'' CHR '','' = [''a'', ''a'', ''b'']"
    "Split ''a,b,a'' CHR '','' = [''a'', ''b'', ''a'']"
    by (simp_all add: Split_def)
  have "\<exists>allCollections. getCollections ?ds ''all'' = Inr allCollections"
    by (simp add: getCollections_def exampleCollectionsDatastore_def exampleDatastore_def
          InitCollections_def)
  then obtain allCollections where g: "getCollections ?ds ''all'' = Inr allCollections" ..
  from getCollections_media_types [OF g]
  have m: "map MediaTypes (Collections allCollections) = [[''a'', ''b''], [''a'', ''b'', ''a'']]"
    by (auto simp: exampleCollectionsDatastore_def exampleDatastore_def exampleCollectionRow_def s)
  from g have "Collections allCollections =
      [collectionOfRow (exampleCollectionRow ''a,a,b''),
       collectionOfRow (exampleCollectionRow ''a,b,a'')]"
    by (auto simp: getCollections_def exampleCollectionsDatastore_def exampleDatastore_def
          InitCollections_def)
  with m have "Collections allCollections =
        [\<lparr>CollectionType.DateAdded = ''2018-01-01T00:00:00'', Enabled = True, Hidden = False,
          CollectionType.ID = ''c1'', Title = ''Indicators'', Description = [], CanRead = True,
          CanWrite = False, MediaTypes = [''a'', ''b'']\<rparr>,
         \<lparr>CollectionType.DateAdded = ''2018-01-01T00:00:00'', Enabled = True, Hidden = False,
          CollectionType.ID = ''c1'', Title = ''Indicators'', Description = [], CanRead = True,
          CanWrite = False, MediaTypes = [''a'', ''b'', ''a'']\<rparr>]"
    by (simp add: collectionOfRow_def exampleCollectionRow_def Let_def setter_defs
          s addMediaTypes_def AddMediaType_def)
  with g s show ?thesis by simp
qed

section \<open>Adding a collection\<close>

text \<open>
  The loop over the media types when the insert of entry \<open>k\<close> is the first to fail: the
  rows of the entries before \<open>k\<close> are in the table, and nothing is taken out.
\<close>

lemma addCollectionMediaTypes_first_failure:
  assumes "k < length medias"
    and "\<forall>j<k. \<not> execFails
            (db\<lparr>t_collection_media := t_collection_media db @
                  map (\<lambda>media. (cid, mediavalueOf media)) (take j medias)\<rparr>)
            (ExecAddCollectionMediaType cid (mediavalueOf (medias ! j)))"
    and "execFails
            (db\<lparr>t_collection_media := t_collection_media db @
                  map (\<lambda>media. (cid, mediavalueOf media)) (take k medias)\<rparr>)
            (ExecAddCollectionMediaType cid (mediavalueOf (medias ! k)))"
  shows "addCollectionMediaTypes execFails cid medias db =
           (Some InsertMediaTypeError,
            db\<lparr>t_collection_media := t_collection_media db @
                  map (\<lambda>media. (cid, mediavalueOf media)) (take k medias)\<rparr>)"
  using assms
proof (induction medias arbitrary: k db)
  case Nil
  then show ?case by simp
next
  case (Cons media medias)
  show ?case
  proof (cases k)
    case 0
    with Cons.prems show ?thesis by (simp add: DBExec_def)
  next
    case (Suc k')
    let ?db1 = "db\<lparr>t_collection_media := t_collection_media db @ [(cid, mediavalueOf media)]\<rparr>"
    from Cons.prems(2) Suc
    have ok: "\<not> execFails db (ExecAddCollectionMediaType cid (mediavalueOf media))"
      by (auto dest: spec [of _ 0])
    have "addCollectionMediaTypes execFails cid medias ?db1 =
           (Some InsertMediaTypeError,
            ?db1\<lparr>t_collection_media := t_collection_media ?db1 @
                  map (\<lambda>media. (cid, mediavalueOf media)) (take k' medias)\<rparr>)"
    proof (rule Cons.IH)
      show "k' < length medias" using Cons.prems(1) Suc by simp
      show "\<forall>j<k'. \<not> execFails
            (?db1\<lparr>t_collection_media := t_collection_media ?db1 @
                  map (\<lambda>media. (cid, mediavalueOf media)) (take j medias)\<rparr>)
            (ExecAddCollectionMediaType cid (mediavalueOf (medias ! j)))"
      proof (intro allI impI)
        fix j assume "j < k'"
        then have "Suc j < k" using Suc by simp
        from Cons.prems(2) [rule_format, OF this]
        show "\<not> execFails
            (?db1\<lparr>t_collection_media := t_collection_media ?db1 @
                  map (\<lambda>media. (cid, mediavalueOf media)) (take j medias)\<rparr>)
            (ExecAddCollectionMediaType cid (mediavalueOf (medias ! j)))"
          by simp
      qed
      show "execFails
            (?db1\<lparr>t_collection_media := t_collection_media ?db1 @
                  map (\<lambda>media. (cid, mediavalueOf media)) (take k' medias)\<rparr>)
            (ExecAddCollectionMediaType cid (mediavalueOf (medias ! k')))"
        using Cons.prems(3) Suc by simp
    qed
    with ok Suc show ?thesis by (simp add: DBExec_def)
  qed
qed

text \<open>
  C9. Let the insert of the base row succeed, \<open>db1\<close> be the tables with that row, and
  the insert of media type \<open>k\<close> be the first media-type insert that fails (each insert
  is tried on the tables its predecessors left). Then \<^verbatim>\<open>addCollection\<close> returns the
  media-type error, and the tables it leaves hold the base row and the rows of the media
  types before \<open>k\<close>: nothing is rolled back.
\<close>

theorem addCollection_no_rollback:
  assumes "\<not> execFails db
             (ExecAddCollection dateAdded (CollectionType.ID obj) (Title obj) (Description obj)
                (CanRead obj) (CanWrite obj))"
    and "db1 = db\<lparr>t_collections := t_collections db @
                  [(dateAdded, CollectionType.ID obj, Title obj, Description obj,
                    CanRead obj, CanWrite obj)]\<rparr>"
    and "k < length (MediaTypes obj)"
    and "\<forall>j<k. \<not> execFails
            (db1\<lparr>t_collection_media := t_collection_media db @
                  map (\<lambda>media. (CollectionType.ID obj, mediavalueOf media))
                    (take j (MediaTypes obj))\<rparr>)
            (ExecAddCollectionMediaType (CollectionType.ID obj)
               (mediavalueOf (MediaTypes obj ! j)))"
    and "execFails
            (db1\<lparr>t_collection_media := t_collection_media db @
                  map (\<lambda>media. (CollectionType.ID obj, mediavalueOf media))
                    (take k (MediaTypes obj))\<rparr>)
            (ExecAddCollectionMediaType (CollectionType.ID obj)
               (mediavalueOf (MediaTypes obj ! k)))"
  shows "addCollection execFails dateAdded obj db =
           (Some InsertMediaTypeError,
            \<lparr>t_collections = t_collections db @
                  [(dateAdded, CollectionType.ID obj, Title obj, Description obj,
                    CanRead obj, CanWrite obj)],
             t_collection_media = t_collection_media db @
                  map (\<lambda>media. (CollectionType.ID obj, mediavalueOf media))
                    (take k (MediaTypes obj))\<rparr>)"
proof -
  have t: "t_collection_media db1 = t_collection_media db"
    using assms(2) by simp
  have "addCollectionMediaTypes execFails (CollectionType.ID obj) (MediaTypes obj) db1 =
           (Some InsertMediaTypeError,
            db1\<lparr>t_collection_media := t_collection_media db1 @
                  map (\<lambda>media. (CollectionType.ID obj, mediavalueOf media))
                    (take k (MediaTypes obj))\<rparr>)"
    using assms(3,4,5) unfolding t [symmetric]
    by (rule addCollectionMediaTypes_first_failure)
  with assms(1,2) show ?thesis
    by (simp add: addCollection_def DBExec_def)
qed

text \<open>
  On the empty tables, with the engine that refuses the second media type: the error is
  returned, and the base row and the row of the first media type stay.
\<close>

theorem addCollection_no_rollback_witness:
  "\<not> exampleEngine emptyStore
       (ExecAddCollection ''2018-01-01T00:00:00.000000Z'' ''c1'' ''Indicators'' [] True False) \<and>
   \<not> exampleEngine
       \<lparr>t_collections = [(''2018-01-01T00:00:00.000000Z'', ''c1'', ''Indicators'', [], True, False)],
        t_collection_media = []\<rparr>
       (ExecAddCollectionMediaType ''c1'' 1) \<and>
   exampleEngine
       \<lparr>t_collections = [(''2018-01-01T00:00:00.000000Z'', ''c1'', ''Indicators'', [], True, False)],
        t_collection_media = [(''c1'', 1)]\<rparr>
       (ExecAddCollectionMediaType ''c1'' 0) \<and>
   addCollection exampleEngine ''2018-01-01T00:00:00.000000Z'' exampleCollection emptyStore =
     (Some InsertMediaTypeError,
      \<lparr>t_collections = [(''2018-01-01T00:00:00.000000Z'', ''c1'', ''Indicators'', [], True, False)],
       t_collection_media = [(''c1'', 1)]\<rparr>)"
  using addCollection_no_rollback [of exampleEngine emptyStore
      "''2018-01-01T00:00:00.000000Z''" exampleCollection
      "\<lparr>t_collections = [(''2018-01-01T00:00:00.000000Z'', ''c1'', ''Indicators'', [], True, False)],
        t_collection_media = []\<rparr>" 1]
  by (simp add: exampleEngine_def emptyStore_def exampleCollection_def mediavalueOf_def)

end
